theory Spec2Isabelle
  imports Main "HOL-Library.Sublist"
begin

section \<open>Go values shared by both packages\<close>

text \<open>
  A Go \<^verbatim>\<open>error\<close> is either a plain error carrying its text (\<^verbatim>\<open>errors.New\<close>, or any
  error a collaborator hands back) or the result of \<^verbatim>\<open>fmt.Errorf("<context>: %w", err)\<close>,
  which keeps the wrapped cause.
\<close>

datatype error = ErrorString string | Wrapped string error

fun error_text :: "error \<Rightarrow> string" where
  "error_text (ErrorString s) = s"
| "error_text (Wrapped c e) = c @ '': '' @ error_text e"

text \<open>
  A Go function declared \<^verbatim>\<open>(T, error)\<close> returns two values, each of which may be
  \<^verbatim>\<open>nil\<close>: the model keeps the pair. A run that dereferences a nil pointer does not
  return at all: it panics.
\<close>

type_synonym 'a result = "'a option \<times> error option"

datatype 'a outcome = Returned 'a | Panic

text \<open>
  The logger is a sink that accepts every message; the model keeps the messages written
  so far.
\<close>

type_synonym logger = "string list"


section \<open>Package config: configuration sets\<close>

text \<open>
  Modelled from the spec: package \<^verbatim>\<open>config\<close> (\<^verbatim>\<open>NewConfigurationSet\<close>, \<^verbatim>\<open>String\<close>,
  \<^verbatim>\<open>Bool\<close>, \<^verbatim>\<open>SetShort\<close>) is not among the sources. The spec describes a
  configuration set as an ordered mapping from a name to an item with a kind, a default,
  a description and an optional short alias, names being unique within a set. An item
  declared under a name already present is refused and the set is left as it was; an
  alias is set on the item of that name, and refused when there is none. Alias conflicts
  are detected when sets are merged, not here.
\<close>

datatype ItemKind = ItemString | ItemBool

datatype ItemValue = StringValue string | BoolValue bool

record ConfigItem =
  kind :: ItemKind
  defaultValue :: "ItemValue option"
  description :: string
  shortAlias :: "string option"

type_synonym ConfigurationSet = "(string \<times> ConfigItem) list"

definition NewConfigurationSet :: ConfigurationSet where
  "NewConfigurationSet = []"

definition addItem :: "string \<Rightarrow> ConfigItem \<Rightarrow> ConfigurationSet \<Rightarrow> error option \<times> ConfigurationSet" where
  "addItem name item cs =
     (if name \<in> fst ` set cs then (Some (ErrorString ''item already exists''), cs)
      else (None, cs @ [(name, item)]))"

definition String_item :: "string \<Rightarrow> string \<Rightarrow> string \<Rightarrow> ConfigurationSet \<Rightarrow> error option \<times> ConfigurationSet" where
  "String_item name dflt descr cs =
     addItem name \<lparr>kind = ItemString, defaultValue = Some (StringValue dflt),
                   description = descr, shortAlias = None\<rparr> cs"

definition Bool_item :: "string \<Rightarrow> bool \<Rightarrow> string \<Rightarrow> ConfigurationSet \<Rightarrow> error option \<times> ConfigurationSet" where
  "Bool_item name dflt descr cs =
     addItem name \<lparr>kind = ItemBool, defaultValue = Some (BoolValue dflt),
                   description = descr, shortAlias = None\<rparr> cs"

definition SetShort :: "string \<Rightarrow> string \<Rightarrow> ConfigurationSet \<Rightarrow> error option \<times> ConfigurationSet" where
  "SetShort name shorthand cs =
     (if name \<in> fst ` set cs
      then (None, map (\<lambda>(n, item). if n = name then (n, item\<lparr>shortAlias := Some shorthand\<rparr>)
                                     else (n, item)) cs)
      else (Some (ErrorString ''item not found''), cs))"


section \<open>Package azure: the AKS discovery provider\<close>

definition ProviderName :: string where
  "ProviderName = ''aks''"

text \<open>
  Modelled from the spec: the item-name constants are declared in a file of package
  \<^verbatim>\<open>azure\<close> that is not among the sources. The spec's configuration item table gives
  the five names; the JSON tags of \<^verbatim>\<open>aksClusterProviderConfig\<close> carry the same ones.
\<close>

definition SubscriptionIDConfigItem :: string where
  "SubscriptionIDConfigItem = ''subscription-id''"

definition SubscriptionNameConfigItem :: string where
  "SubscriptionNameConfigItem = ''subscription-name''"

definition ResourceGroupConfigItem :: string where
  "ResourceGroupConfigItem = ''resource-group''"

definition AdminConfigItem :: string where
  "AdminConfigItem = ''admin''"

definition ClusterNameConfigItem :: string where
  "ClusterNameConfigItem = ''cluster-name''"

subsection \<open>Identities and authorizers\<close>

text \<open>
  Modelled from the spec: \<^verbatim>\<open>oidc.Identity\<close> and \<^verbatim>\<open>azid.AuthorizerIdentity\<close> are declared
  outside the sources. The spec gives their shape: an OIDC identity carries token
  material, an authorizer identity carries an authorizer built beforehand, which its
  method \<^verbatim>\<open>Authorizer()\<close> hands back.
\<close>

datatype oidc_Identity = oidc_Identity (tokenMaterial: string)

text \<open>
  \<^verbatim>\<open>autorest.Authorizer\<close> is an interface: \<^verbatim>\<open>autorest.NewBearerAuthorizer(id)\<close> builds a
  bearer authorizer around its token provider; every other authorizer is opaque here.
\<close>

datatype Authorizer = BearerAuthorizer oidc_Identity | OpaqueAuthorizer string

datatype azid_AuthorizerIdentity = azid_AuthorizerIdentity (Authorizer: "Authorizer option")

text \<open>
  \<^verbatim>\<open>identity.Identity\<close> is an interface. The type switch of \<^verbatim>\<open>setup\<close> tells apart the two
  pointer types it names from every other value: another implementation (kept with the
  name of the identity provider that produced it) or the nil interface value.
\<close>

datatype Identity =
    OIDCIdentity oidc_Identity
  | AzureAuthorizerIdentity azid_AuthorizerIdentity
  | OtherIdentity string
  | NilIdentity

subsection \<open>The provider\<close>

type_synonym khttp_Client = string

record PluginCreationInput =
  Logger :: logger
  IsInteractice :: bool
  HTTPClient :: "khttp_Client option"

text \<open>
  \<^verbatim>\<open>common.ClusterProviderConfig\<close>, embedded in the provider's configuration, is declared
  outside the sources: its type is the parameter \<open>'c\<close>.
\<close>

record 'c aksClusterProviderConfig =
  ClusterProviderConfig :: 'c
  SubscriptionID :: "string option"
  SubscriptionName :: "string option"
  ResourceGroup :: "string option"
  Admin :: bool
  ClusterName :: string

record 'c aksClusterProvider =
  config :: "'c aksClusterProviderConfig option"
  authorizer :: "Authorizer option"
  httpClient :: "khttp_Client option"
  interactive :: bool
  logger :: logger

text \<open>
  \<^verbatim>\<open>New\<close>. The sentinel \<^verbatim>\<open>provider.ErrHTTPClientRequired\<close> is declared outside the
  sources and is a parameter.
\<close>

definition New :: "error \<Rightarrow> PluginCreationInput \<Rightarrow> 'c aksClusterProvider result" where
  "New ErrHTTPClientRequired input =
     (if HTTPClient input = None then (None, Some ErrHTTPClientRequired)
      else (Some \<lparr>config = None, authorizer = None, httpClient = HTTPClient input,
                   interactive = IsInteractice input, logger = Logger input\<rparr>, None))"

definition aksClusterProvider_Name :: "'c aksClusterProvider \<Rightarrow> string" where
  "aksClusterProvider_Name p = ProviderName"

text \<open>
  \<^verbatim>\<open>setup\<close>. \<^verbatim>\<open>config.Unmarshall\<close> and the sentinel \<^verbatim>\<open>ErrUnsupportedIdentity\<close> are declared
  outside the sources and are parameters, as is the zero value of the embedded struct.
  \<^verbatim>\<open>Unmarshall cs cfg\<close> returns its error together with the configuration it has written
  through the pointer it was given.
\<close>

definition zero_aksClusterProviderConfig :: "'c \<Rightarrow> 'c aksClusterProviderConfig" where
  "zero_aksClusterProviderConfig zeroCommon =
     \<lparr>ClusterProviderConfig = zeroCommon, SubscriptionID = None, SubscriptionName = None,
      ResourceGroup = None, Admin = False, ClusterName = []\<rparr>"

definition aksClusterProvider_setup ::
  "(ConfigurationSet \<Rightarrow> 'c aksClusterProviderConfig \<Rightarrow> error option \<times> 'c aksClusterProviderConfig)
   \<Rightarrow> error \<Rightarrow> 'c \<Rightarrow> ConfigurationSet \<Rightarrow> Identity \<Rightarrow> 'c aksClusterProvider
   \<Rightarrow> error option \<times> 'c aksClusterProvider" where
  "aksClusterProvider_setup Unmarshall ErrUnsupportedIdentity zeroCommon cs userID p =
     (case Unmarshall cs (zero_aksClusterProviderConfig zeroCommon) of
        (Some err, cfg) \<Rightarrow>
          (Some (Wrapped ''unmarshalling config items into eksClusteProviderConfig'' err), p)
      | (None, cfg) \<Rightarrow>
          (let p1 = p\<lparr>config := Some cfg\<rparr>
           in case userID of
                OIDCIdentity ident \<Rightarrow>
                  (None, p1\<lparr>logger := logger p1 @ [''creating bearer authorizer''],
                            authorizer := Some (BearerAuthorizer ident)\<rparr>)
              | AzureAuthorizerIdentity ident \<Rightarrow>
                  (None, p1\<lparr>authorizer := Authorizer ident\<rparr>)
              | _ \<Rightarrow> (Some ErrUnsupportedIdentity, p1)))"

definition ListPreReqs :: "'c aksClusterProvider \<Rightarrow> string list" where
  "ListPreReqs p = []"

definition CheckPreReqs :: "'c aksClusterProvider \<Rightarrow> error option" where
  "CheckPreReqs p = None"

text \<open>
  \<^verbatim>\<open>ConfigurationItems\<close>. The source drops what \<^verbatim>\<open>String\<close>, \<^verbatim>\<open>Bool\<close> and \<^verbatim>\<open>SetShort\<close>
  return (\<^verbatim>\<open>//nolint: errcheck\<close>) and goes on with the set as they left it.
\<close>

definition ConfigurationItems :: "string \<Rightarrow> ConfigurationSet result" where
  "ConfigurationItems scopeTo =
     (let cs = NewConfigurationSet;
          cs = snd (String_item SubscriptionIDConfigItem []
                      ''The Azure subscription to use (specified by ID)'' cs);
          cs = snd (String_item SubscriptionNameConfigItem []
                      ''The Azure subscription to use (specified by name)'' cs);
          cs = snd (String_item ResourceGroupConfigItem []
                      ''The Azure resource group to use'' cs);
          cs = snd (Bool_item AdminConfigItem False ''Generate admin user kubeconfig'' cs);
          cs = snd (String_item ClusterNameConfigItem [] ''The name of the AKS cluster'' cs);
          cs = snd (SetShort ResourceGroupConfigItem ''r'' cs)
      in (Some cs, None))"

section \<open>Package aws: the EKS discovery provider\<close>

subsection \<open>The SDK's and the discovery package's types\<close>

text \<open>
  The AWS SDK hands every field back through a pointer, which may be nil. The provider
  reads the fields below; \<^verbatim>\<open>discovery.Cluster\<close> keeps identifier and name by value and
  the other two by pointer.
\<close>

record eks_Certificate =
  Data :: "string option"

record eks_Cluster =
  Arn :: "string option"
  Name :: "string option"
  Endpoint :: "string option"
  CertificateAuthority :: "eks_Certificate option"

record DescribeClusterInput =
  Name :: "string option"

record DescribeClusterOutput =
  Cluster :: "eks_Cluster option"

record ListClustersOutput =
  Clusters :: "string option list"

record Cluster =
  ID :: string
  Name :: string
  ControlPlaneEndpoint :: "string option"
  CertificateAuthorityData :: "string option"

record DiscoverInput =
  ConfigSet :: ConfigurationSet
  Identity :: Identity

record DiscoverOutput =
  DiscoveryProvider :: string
  IdentityProvider :: string
  Clusters :: "string \<rightharpoonup> Cluster"

subsection \<open>The collaborator and the effects of a run\<close>

text \<open>
  The EKS client is the cloud collaborator. Its answers may depend on everything that
  happened before, so each operation takes the state \<open>'w\<close> of the outside world and
  returns the next one. \<^verbatim>\<open>ListClustersPages\<close> hands the pages it fetched to the callback
  one by one and returns its error at the end; the callback of \<^verbatim>\<open>listClusters\<close> always
  asks for the next page, so the client's part is the pages delivered and the final
  error.
\<close>

record 'w eksClient =
  ListClustersPages :: "'w \<Rightarrow> (ListClustersOutput list \<times> error option) \<times> 'w"
  DescribeCluster :: "DescribeClusterInput \<Rightarrow> 'w \<Rightarrow> DescribeClusterOutput result \<times> 'w"

text \<open>
  Each call made to the collaborator during a run is recorded with what it returned, in
  the order of the calls.
\<close>

datatype call =
    ListClustersPagesCall "ListClustersOutput list \<times> error option"
  | DescribeClusterCall DescribeClusterInput "DescribeClusterOutput result"

record 'w effects =
  world :: 'w
  calls :: "call list"

text \<open>
  The struct \<^verbatim>\<open>eksClusterProvider\<close> is declared outside the sources; these are the
  fields the given methods use.
\<close>

record 'w eksClusterProvider =
  eksClient :: "'w eksClient"
  logger :: logger

text \<open>
  A \<^verbatim>\<open>context.Context\<close>, as far as a sequential run can observe it: the value of
  \<^verbatim>\<open>ctx.Err()\<close> once the given number of collaborator calls has been made (\<open>None\<close> while
  the context is live).
\<close>

type_synonym Context = "nat \<Rightarrow> error option"

subsection \<open>The methods\<close>

definition listClusters ::
  "'w eksClusterProvider \<Rightarrow> 'w effects \<Rightarrow> (string option list \<times> error option) \<times> 'w effects" where
  "listClusters p st =
     (case ListClustersPages (eksClient p) (world st) of
        ((pages, err), w) \<Rightarrow>
          (let clusters = foldl (\<lambda>clusters page. clusters @ ListClustersOutput.Clusters page) [] pages;
               st1 = st\<lparr>world := w, calls := calls st @ [ListClustersPagesCall (pages, err)]\<rparr>
           in case err of
                Some e \<Rightarrow> (([], Some (Wrapped ''listing clusters'' e)), st1)
              | None \<Rightarrow> ((clusters, None), st1)))"

definition getClusterConfig ::
  "'w eksClusterProvider \<Rightarrow> string \<Rightarrow> 'w effects \<Rightarrow> Cluster result outcome \<times> 'w effects" where
  "getClusterConfig p clusterName st =
     (let input = \<lparr>DescribeClusterInput.Name = Some clusterName\<rparr>
      in case DescribeCluster (eksClient p) input (world st) of
           ((output, err), w) \<Rightarrow>
             (let st1 = st\<lparr>world := w,
                           calls := calls st @ [DescribeClusterCall input (output, err)]\<rparr>
              in case err of
                   Some e \<Rightarrow>
                     (Returned (None, Some (Wrapped (''describing cluster '' @ clusterName) e)), st1)
                 | None \<Rightarrow>
                     (case output of
                        None \<Rightarrow> (Panic, st1)
                      | Some out \<Rightarrow>
                          (case Cluster out of
                             None \<Rightarrow> (Panic, st1)
                           | Some c \<Rightarrow>
                               (case Arn c of
                                  None \<Rightarrow> (Panic, st1)
                                | Some arn \<Rightarrow>
                                    (case eks_Cluster.Name c of
                                       None \<Rightarrow> (Panic, st1)
                                     | Some nm \<Rightarrow>
                                         (case CertificateAuthority c of
                                            None \<Rightarrow> (Panic, st1)
                                          | Some ca \<Rightarrow>
                                              (Returned
                                                 (Some \<lparr>ID = arn, Cluster.Name = nm,
                                                         ControlPlaneEndpoint = Endpoint c,
                                                         CertificateAuthorityData = Data ca\<rparr>,
                                                  None), st1))))))))"

text \<open>The loop of \<^verbatim>\<open>Discover\<close> over the listed names, from the first name on.\<close>

fun Discover_loop ::
  "'w eksClusterProvider \<Rightarrow> string option list \<Rightarrow> DiscoverOutput \<Rightarrow> 'w effects
   \<Rightarrow> DiscoverOutput result outcome \<times> 'w effects" where
  "Discover_loop p [] discoverOutput st = (Returned (Some discoverOutput, None), st)"
| "Discover_loop p (clusterName # rest) discoverOutput st =
     (case clusterName of
        None \<Rightarrow> (Panic, st)
      | Some name \<Rightarrow>
          (case getClusterConfig p name st of
             (Panic, st1) \<Rightarrow> (Panic, st1)
           | (Returned (clusterDetail, Some err), st1) \<Rightarrow>
               (Returned (None, Some (Wrapped ''getting cluster config'' err)), st1)
           | (Returned (None, None), st1) \<Rightarrow> (Panic, st1)
           | (Returned (Some clusterDetail, None), st1) \<Rightarrow>
               Discover_loop p rest
                 (discoverOutput\<lparr>Clusters :=
                    (Clusters discoverOutput)(ID clusterDetail \<mapsto> clusterDetail)\<rparr>) st1))"

text \<open>
  \<^verbatim>\<open>Discover\<close>. The provider's own \<^verbatim>\<open>setup\<close> and the constant \<^verbatim>\<open>ProviderName\<close> of package
  \<^verbatim>\<open>aws\<close> are declared outside the sources and are parameters (\<open>setupFn\<close>,
  \<open>providerName\<close>). The context is received and never read. A run starts in the
  world \<open>w\<close> with no call made yet and ends with the calls it made.
\<close>

definition Discover ::
  "string \<Rightarrow> (ConfigurationSet \<Rightarrow> Identity \<Rightarrow> 'w eksClusterProvider \<Rightarrow> error option \<times> 'w eksClusterProvider)
   \<Rightarrow> Context \<Rightarrow> DiscoverInput \<Rightarrow> 'w eksClusterProvider \<Rightarrow> 'w
   \<Rightarrow> DiscoverOutput result outcome \<times> 'w eksClusterProvider \<times> 'w effects" where
  "Discover providerName setupFn ctx input p w =
     (case setupFn (ConfigSet input) (Identity input) p of
        (Some err, p1) \<Rightarrow>
          (Returned (None, Some (Wrapped ''setting up eks provider'' err)), p1,
           \<lparr>world = w, calls = []\<rparr>)
      | (None, p1) \<Rightarrow>
          (let p2 = p1\<lparr>logger := eksClusterProvider.logger p1 @ [''discovering EKS clusters'']\<rparr>
           in case listClusters p2 \<lparr>world = w, calls = []\<rparr> of
                ((clusters, Some err), st1) \<Rightarrow>
                  (Returned (None, Some (Wrapped ''listing clusters'' err)), p2, st1)
              | ((clusters, None), st1) \<Rightarrow>
                  (let discoverOutput =
                         \<lparr>DiscoveryProvider = providerName, IdentityProvider = ''aws'',
                          Clusters = Map.empty\<rparr>
                   in if length clusters = 0
                      then (Returned (Some discoverOutput, None),
                            p2\<lparr>logger := eksClusterProvider.logger p2 @ [''no EKS clusters discovered'']\<rparr>,
                            st1)
                      else (case Discover_loop p2 clusters discoverOutput st1 of
                              (r, st2) \<Rightarrow> (r, p2, st2)))))"


section \<open>Reading a run\<close>

text \<open>
  What a recorded call says: whether it is a describe call, the name it asked about, and
  the cluster record it stands for. A describe call returned a cluster when its error is
  nil and the output, its cluster, the ARN, the name and the certificate authority are
  all present; the record then holds the ARN as identifier and name, endpoint and
  certificate data as the call returned them.
\<close>

fun isDescribe :: "call \<Rightarrow> bool" where
  "isDescribe (DescribeClusterCall inp res) = True"
| "isDescribe (ListClustersPagesCall res) = False"

fun returnedCluster :: "call \<Rightarrow> Cluster option" where
  "returnedCluster (DescribeClusterCall inp (Some out, None)) =
     (case Cluster out of
        None \<Rightarrow> None
      | Some c \<Rightarrow>
          (case (Arn c, eks_Cluster.Name c, CertificateAuthority c) of
             (Some arn, Some nm, Some ca) \<Rightarrow>
               Some \<lparr>ID = arn, Cluster.Name = nm, ControlPlaneEndpoint = Endpoint c,
                     CertificateAuthorityData = Data ca\<rparr>
           | _ \<Rightarrow> None))"
| "returnedCluster other = None"

definition clustersReturned :: "call list \<Rightarrow> Cluster list" where
  "clustersReturned cs = List.map_filter returnedCluster cs"

text \<open>
  What the collaborator answers when it is asked to describe the given names one after
  the other, starting in the given world: the describe calls with their results, and the
  world after the last of them.
\<close>

fun describeAll :: "'w eksClient \<Rightarrow> string list \<Rightarrow> 'w \<Rightarrow> call list \<times> 'w" where
  "describeAll client [] w = ([], w)"
| "describeAll client (n # ns) w =
     (case DescribeCluster client \<lparr>DescribeClusterInput.Name = Some n\<rparr> w of
        (res, w1) \<Rightarrow>
          (case describeAll client ns w1 of
             (answered, w2) \<Rightarrow>
               (DescribeClusterCall \<lparr>DescribeClusterInput.Name = Some n\<rparr> res # answered, w2)))"

text \<open>
  The identities the type switch of \<^verbatim>\<open>setup\<close> has a case for, and what it means for an
  error to name something: the name occurs in the error's text.
\<close>

fun supportedIdentity :: "Identity \<Rightarrow> bool" where
  "supportedIdentity (OIDCIdentity ident) = True"
| "supportedIdentity (AzureAuthorizerIdentity ident) = True"
| "supportedIdentity other = False"

definition error_names :: "error \<Rightarrow> string \<Rightarrow> bool" where
  "error_names e name = sublist name (error_text e)"


section \<open>Example collaborators\<close>

text \<open>
  A client whose world counts the calls made so far. It lists the given names on one
  page and describes every name but the failing ones.
\<close>

definition describedAs :: "string \<Rightarrow> DescribeClusterOutput" where
  "describedAs n =
     \<lparr>Cluster = Some \<lparr>Arn = Some (''arn:'' @ n), eks_Cluster.Name = Some n,
                      Endpoint = Some (''https://'' @ n),
                      CertificateAuthority = Some \<lparr>Data = Some ''CA''\<rparr>\<rparr>\<rparr>"

definition stubClient :: "string list \<Rightarrow> string list \<Rightarrow> nat eksClient" where
  "stubClient names failing =
     \<lparr>ListClustersPages = (\<lambda>w. (([\<lparr>ListClustersOutput.Clusters = map Some names\<rparr>], None), Suc w)),
      DescribeCluster = (\<lambda>inp w.
        (case DescribeClusterInput.Name inp of
           None \<Rightarrow> (None, Some (ErrorString ''name required''))
         | Some n \<Rightarrow>
             if n \<in> set failing then (None, Some (ErrorString ''throttled''))
             else (Some (describedAs n), None), Suc w))\<rparr>"

definition stubProvider :: "string list \<Rightarrow> string list \<Rightarrow> nat eksClusterProvider" where
  "stubProvider names failing = \<lparr>eksClient = stubClient names failing, eksClusterProvider.logger = []\<rparr>"

definition setupDone ::
  "ConfigurationSet \<Rightarrow> Identity \<Rightarrow> nat eksClusterProvider \<Rightarrow> error option \<times> nat eksClusterProvider" where
  "setupDone cs userID p = (None, p)"

definition canceledAfter :: "nat \<Rightarrow> Context" where
  "canceledAfter k n = (if k \<le> n then Some (ErrorString ''context canceled'') else None)"

definition discovered :: "string \<Rightarrow> Cluster" where
  "discovered n = \<lparr>ID = ''arn:'' @ n, Cluster.Name = n,
                    ControlPlaneEndpoint = Some (''https://'' @ n),
                    CertificateAuthorityData = Some ''CA''\<rparr>"

text \<open>
  A client that lists the given name pointers on one page and answers a describe call
  for a name as the given function says.
\<close>

definition scriptedClient ::
  "string option list \<Rightarrow> (string \<Rightarrow> DescribeClusterOutput result) \<Rightarrow> nat eksClient" where
  "scriptedClient names answer =
     \<lparr>ListClustersPages = (\<lambda>w. (([\<lparr>ListClustersOutput.Clusters = names\<rparr>], None), Suc w)),
      DescribeCluster = (\<lambda>inp w.
        (case DescribeClusterInput.Name inp of
           None \<Rightarrow> (None, Some (ErrorString ''name required''))
         | Some n \<Rightarrow> answer n, Suc w))\<rparr>"

text \<open>
  A setup for the EKS provider that binds nothing and answers with the error of the
  AKS identity dispatch.
\<close>

definition setupByDispatch ::
  "ConfigurationSet \<Rightarrow> Identity \<Rightarrow> nat eksClusterProvider \<Rightarrow> error option \<times> nat eksClusterProvider" where
  "setupByDispatch cs userID p =
     (fst (aksClusterProvider_setup (\<lambda>cs cfg. (None, cfg)) (ErrorString ''unsupported identity'')
             () cs userID
             \<lparr>config = None, authorizer = None, httpClient = None, interactive = False,
              aksClusterProvider.logger = []\<rparr>), p)"

text \<open>
  For the AKS provider: an \<^verbatim>\<open>Unmarshall\<close> that binds a cluster name and reports no error, a
  provider as \<^verbatim>\<open>New\<close> returns it, and a provider that an earlier \<^verbatim>\<open>setup\<close> has bound.
\<close>

definition bindDefaults ::
  "ConfigurationSet \<Rightarrow> unit aksClusterProviderConfig \<Rightarrow> error option \<times> unit aksClusterProviderConfig" where
  "bindDefaults cs cfg = (None, cfg\<lparr>ClusterName := ''dev''\<rparr>)"

definition freshProvider :: "unit aksClusterProvider" where
  "freshProvider = \<lparr>config = None, authorizer = None, httpClient = Some ''client'',
                     interactive = False, aksClusterProvider.logger = []\<rparr>"

definition boundProvider :: "unit aksClusterProvider" where
  "boundProvider = \<lparr>config = Some ((zero_aksClusterProviderConfig ())\<lparr>ClusterName := ''old''\<rparr>),
                     authorizer = Some (OpaqueAuthorizer ''msi''), httpClient = Some ''client'',
                     interactive = False, aksClusterProvider.logger = []\<rparr>"


section \<open>The steps of a discovery run\<close>

lemmas stub_defs = Discover_def listClusters_def getClusterConfig_def stubProvider_def
  stubClient_def setupDone_def describedAs_def Let_def

lemma getClusterConfig_call:
  assumes "getClusterConfig p n st = (g, st1)"
  shows "\<exists>res. calls st1 = calls st @ [DescribeClusterCall \<lparr>DescribeClusterInput.Name = Some n\<rparr> res] \<and>
           (case snd res of
              Some e \<Rightarrow> g = Returned (None, Some (Wrapped (''describing cluster '' @ n) e))
            | None \<Rightarrow>
                (case returnedCluster (DescribeClusterCall \<lparr>DescribeClusterInput.Name = Some n\<rparr> res) of
                   Some c \<Rightarrow> g = Returned (Some c, None)
                 | None \<Rightarrow> g = Panic))"
proof -
  obtain outp err w where d:
    "DescribeCluster (eksClient p) \<lparr>DescribeClusterInput.Name = Some n\<rparr> (world st) = ((outp, err), w)"
    by (metis surj_pair)
  show ?thesis
    using assms d
    by (intro exI [of _ "(outp, err)"])
       (auto simp: getClusterConfig_def Let_def split: option.splits)
qed

text \<open>
  Where a run panics: on a listed name that is a nil pointer, and on a describe call that
  returned no error and yet no complete cluster, when \<^verbatim>\<open>getClusterConfig\<close> dereferences
  the missing part.
\<close>

lemma getClusterConfig_incomplete:
  assumes "DescribeCluster (eksClient p) \<lparr>DescribeClusterInput.Name = Some n\<rparr> (world st) = ((outp, None), w)"
    and "returnedCluster (DescribeClusterCall \<lparr>DescribeClusterInput.Name = Some n\<rparr> (outp, None)) = None"
  shows "fst (getClusterConfig p n st) = Panic"
  using assms
  by (cases outp) (auto simp: getClusterConfig_def Let_def split: option.splits)

lemma Discover_loop_nil_name:
  "Discover_loop p (None # rest) discoverOutput st = (Panic, st)"
  by simp

text \<open>
  The calls the loop adds are describe calls, and a failed one ends the loop with its
  error.
\<close>

lemma Discover_loop_calls:
  "Discover_loop p names out st = (r, st') \<Longrightarrow>
   \<exists>new. calls st' = calls st @ new \<and> (\<forall>c \<in> set new. isDescribe c) \<and>
     (\<forall>inp res e. DescribeClusterCall inp (res, Some e) \<in> set new \<longrightarrow>
        (\<exists>n. DescribeClusterInput.Name inp = Some n \<and>
           r = Returned (None, Some (Wrapped ''getting cluster config''
                                      (Wrapped (''describing cluster '' @ n) e)))))"
proof (induction names arbitrary: out st)
  case Nil
  then show ?case by simp
next
  case (Cons clusterName rest)
  show ?case
  proof (cases clusterName)
    case None
    with Cons.prems show ?thesis by simp
  next
    case (Some n)
    obtain g st1 where g: "getClusterConfig p n st = (g, st1)" by (metis surj_pair)
    from getClusterConfig_call [OF g] obtain res where
      c1: "calls st1 = calls st @ [DescribeClusterCall \<lparr>DescribeClusterInput.Name = Some n\<rparr> res]"
      and g': "case snd res of
              Some e \<Rightarrow> g = Returned (None, Some (Wrapped (''describing cluster '' @ n) e))
            | None \<Rightarrow>
                (case returnedCluster (DescribeClusterCall \<lparr>DescribeClusterInput.Name = Some n\<rparr> res) of
                   Some c \<Rightarrow> g = Returned (Some c, None)
                 | None \<Rightarrow> g = Panic)"
      by blast
    show ?thesis
    proof (cases "snd res")
      case (Some e)
      with g' have "g = Returned (None, Some (Wrapped (''describing cluster '' @ n) e))" by simp
      with Cons.prems \<open>clusterName = Some n\<close> g c1 Some
      show ?thesis by (cases res) auto
    next
      case None
      show ?thesis
      proof (cases "returnedCluster (DescribeClusterCall \<lparr>DescribeClusterInput.Name = Some n\<rparr> res)")
        case None
        with g' \<open>snd res = None\<close> have "g = Panic" by simp
        with Cons.prems \<open>clusterName = Some n\<close> g c1 \<open>snd res = None\<close>
        show ?thesis by (cases res) auto
      next
        case (Some c)
        with g' \<open>snd res = None\<close> have gc: "g = Returned (Some c, None)" by simp
        with Cons.prems \<open>clusterName = Some n\<close> g
        have rec: "Discover_loop p rest (out\<lparr>Clusters := (Clusters out)(ID c \<mapsto> c)\<rparr>) st1 = (r, st')"
          by simp
        from Cons.IH [OF rec] obtain new where
          n1: "calls st' = calls st1 @ new" and n2: "\<forall>c \<in> set new. isDescribe c"
          and n3: "\<forall>inp res e. DescribeClusterCall inp (res, Some e) \<in> set new \<longrightarrow>
            (\<exists>n. DescribeClusterInput.Name inp = Some n \<and>
               r = Returned (None, Some (Wrapped ''getting cluster config''
                                      (Wrapped (''describing cluster '' @ n) e))))"
          by blast
        show ?thesis
          using n1 n2 n3 c1 \<open>snd res = None\<close>
          by (intro exI [of _ "DescribeClusterCall \<lparr>DescribeClusterInput.Name = Some n\<rparr> res # new"])
             (cases res, auto)
      qed
    qed
  qed
qed


lemma foldl_append_pages:
  "foldl (\<lambda>clusters page. clusters @ ListClustersOutput.Clusters page) acc pages =
     acc @ concat (map ListClustersOutput.Clusters pages)"
  by (induction pages arbitrary: acc) simp_all

lemma map_add_upd_first:
  "m(k \<mapsto> v) ++ map_of (rev kvs) = m ++ map_of (rev ((k, v) # kvs))"
  by (rule ext) (simp add: map_add_def split: option.splits)

text \<open>
  While every answer is a complete cluster, the loop follows the collaborator: it makes
  the calls the collaborator answers, in order, and stores each returned cluster under
  its identifier.
\<close>

lemma getClusterConfig_returned:
  assumes "DescribeCluster (eksClient p) \<lparr>DescribeClusterInput.Name = Some n\<rparr> (world st) = (res, w1)"
    and "returnedCluster (DescribeClusterCall \<lparr>DescribeClusterInput.Name = Some n\<rparr> res) = Some c"
  shows "getClusterConfig p n st =
           (Returned (Some c, None),
            st\<lparr>world := w1,
                calls := calls st @ [DescribeClusterCall \<lparr>DescribeClusterInput.Name = Some n\<rparr> res]\<rparr>)"
proof -
  obtain outp err where res: "res = (outp, err)" by (cases res)
  from assms(2) res obtain out where "outp = Some out" "err = None"
    by (cases outp; cases err) auto
  with assms res show ?thesis
    by (auto simp: getClusterConfig_def Let_def split: option.splits)
qed

lemma Discover_loop_describeAll:
  assumes "describeAll (eksClient p) ns (world st) = (described, w2)"
    and "\<forall>c \<in> set described. returnedCluster c \<noteq> None"
  shows "Discover_loop p (map Some ns) out st =
           (Returned (Some (out\<lparr>Clusters := Clusters out ++
                        map_of (rev (map (\<lambda>c. (ID c, c)) (clustersReturned described)))\<rparr>), None),
            st\<lparr>world := w2, calls := calls st @ described\<rparr>)"
  using assms
proof (induction ns arbitrary: out st described)
  case Nil
  then show ?case by (simp add: clustersReturned_def map_filter_simps)
next
  case (Cons n ns)
  let ?inp = "\<lparr>DescribeClusterInput.Name = Some n\<rparr>"
  obtain res w1 where d: "DescribeCluster (eksClient p) ?inp (world st) = (res, w1)"
    by (metis surj_pair)
  obtain answered w2' where a: "describeAll (eksClient p) ns w1 = (answered, w2')"
    by (metis surj_pair)
  from Cons.prems(1) d a have descr: "described = DescribeClusterCall ?inp res # answered"
    and w2: "w2' = w2" by simp_all
  from Cons.prems(2) descr obtain c where c: "returnedCluster (DescribeClusterCall ?inp res) = Some c"
    by auto
  let ?st1 = "st\<lparr>world := w1, calls := calls st @ [DescribeClusterCall ?inp res]\<rparr>"
  let ?out1 = "out\<lparr>Clusters := (Clusters out)(ID c \<mapsto> c)\<rparr>"
  have g: "getClusterConfig p n st = (Returned (Some c, None), ?st1)"
    by (rule getClusterConfig_returned [OF d c])
  have a': "describeAll (eksClient p) ns (world ?st1) = (answered, w2)" using a w2 by simp
  from Cons.prems(2) descr have ok: "\<forall>c \<in> set answered. returnedCluster c \<noteq> None" by simp
  have step: "Discover_loop p (map Some (n # ns)) out st = Discover_loop p (map Some ns) ?out1 ?st1"
    using g by simp
  have cr: "clustersReturned described = c # clustersReturned answered"
    using descr c by (simp add: clustersReturned_def map_filter_simps)
  have "Discover_loop p (map Some ns) ?out1 ?st1 =
          (Returned (Some (?out1\<lparr>Clusters := Clusters ?out1 ++
                       map_of (rev (map (\<lambda>c. (ID c, c)) (clustersReturned answered)))\<rparr>), None),
           ?st1\<lparr>world := w2, calls := calls ?st1 @ answered\<rparr>)"
    by (rule Cons.IH [OF a' ok])
  also have "?out1\<lparr>Clusters := Clusters ?out1 ++
                       map_of (rev (map (\<lambda>c. (ID c, c)) (clustersReturned answered)))\<rparr>
             = out\<lparr>Clusters := Clusters out ++
                       map_of (rev (map (\<lambda>c. (ID c, c)) (clustersReturned described)))\<rparr>"
    unfolding cr list.map map_add_upd_first [symmetric] by simp
  also have "?st1\<lparr>world := w2, calls := calls ?st1 @ answered\<rparr>
             = st\<lparr>world := w2, calls := calls st @ described\<rparr>"
    using descr by simp
  finally have fin: "Discover_loop p (map Some ns) ?out1 ?st1 =
          (Returned (Some (out\<lparr>Clusters := Clusters out ++
                       map_of (rev (map (\<lambda>c. (ID c, c)) (clustersReturned described)))\<rparr>), None),
           st\<lparr>world := w2, calls := calls st @ described\<rparr>)" .
  show ?case by (rule trans [OF step fin])
qed

lemma describeAll_length:
  "describeAll client ns w = (described, w2) \<Longrightarrow> length described = length ns"
  by (induction ns arbitrary: w described) (auto split: prod.splits)

lemma Discover_run:
  assumes "Discover pn setupFn ctx input p w = (r, p', st')"
  shows "(\<exists>e p1. setupFn (ConfigSet input) (Identity input) p = (Some e, p1) \<and>
            r = Returned (None, Some (Wrapped ''setting up eks provider'' e)) \<and>
            calls st' = [] \<and> world st' = w)
       \<or> (\<exists>p1 w1 pages e. setupFn (ConfigSet input) (Identity input) p = (None, p1) \<and>
            ListClustersPages (eksClient p1) w = ((pages, Some e), w1) \<and>
            calls st' = [ListClustersPagesCall (pages, Some e)] \<and>
            r = Returned (None, Some (Wrapped ''listing clusters''
                                       (Wrapped ''listing clusters'' e))))
       \<or> (\<exists>p1 w1 pages. setupFn (ConfigSet input) (Identity input) p = (None, p1) \<and>
            ListClustersPages (eksClient p1) w = ((pages, None), w1) \<and>
            concat (map ListClustersOutput.Clusters pages) = [] \<and>
            calls st' = [ListClustersPagesCall (pages, None)] \<and>
            r = Returned (Some \<lparr>DiscoveryProvider = pn, IdentityProvider = ''aws'',
                                 Clusters = Map.empty\<rparr>, None))
       \<or> (\<exists>p1 w1 pages st1 p2. setupFn (ConfigSet input) (Identity input) p = (None, p1) \<and>
            ListClustersPages (eksClient p1) w = ((pages, None), w1) \<and>
            concat (map ListClustersOutput.Clusters pages) \<noteq> [] \<and>
            calls st1 = [ListClustersPagesCall (pages, None)] \<and>
            Discover_loop p2 (concat (map ListClustersOutput.Clusters pages))
              \<lparr>DiscoveryProvider = pn, IdentityProvider = ''aws'', Clusters = Map.empty\<rparr> st1
              = (r, st'))"
proof -
  obtain se p1 where s: "setupFn (ConfigSet input) (Identity input) p = (se, p1)"
    by (metis surj_pair)
  show ?thesis
  proof (cases se)
    case (Some e)
    with assms s show ?thesis by (auto simp: Discover_def)
  next
    case None
    let ?p2 = "p1\<lparr>eksClusterProvider.logger := eksClusterProvider.logger p1 @ [''discovering EKS clusters'']\<rparr>"
    obtain pages err w1 where l: "ListClustersPages (eksClient p1) w = ((pages, err), w1)"
      by (metis surj_pair)
    let ?names = "concat (map ListClustersOutput.Clusters pages)"
    let ?st1 = "\<lparr>world = w1, calls = [ListClustersPagesCall (pages, err)]\<rparr>"
    let ?out = "\<lparr>DiscoveryProvider = pn, IdentityProvider = ''aws'', Clusters = Map.empty\<rparr>"
    show ?thesis
    proof (cases err)
      case (Some e)
      with assms s None l
      have "r = Returned (None, Some (Wrapped ''listing clusters'' (Wrapped ''listing clusters'' e)))"
        and "st' = ?st1"
        by (simp_all add: Discover_def listClusters_def Let_def)
      with s \<open>se = None\<close> l Some show ?thesis by auto
    next
      case None
      have lc: "listClusters ?p2 \<lparr>world = w, calls = []\<rparr> = ((?names, None), ?st1)"
        using l None by (simp add: listClusters_def foldl_append_pages)
      show ?thesis
      proof (cases "?names = []")
        case True
        with assms s \<open>se = None\<close> lc
        have "r = Returned (Some ?out, None)" and "st' = ?st1"
          by (simp_all add: Discover_def Let_def)
        with True s \<open>se = None\<close> l None show ?thesis by auto
      next
        case False
        obtain r0 st2 where lp: "Discover_loop ?p2 ?names ?out ?st1 = (r0, st2)"
          by (metis surj_pair)
        from False have ne: "length ?names \<noteq> 0" by simp
        from assms s \<open>se = None\<close> lc lp ne
        have "r = r0 \<and> st' = st2"
          unfolding Discover_def Let_def by (simp del: length_0_conv concat_eq_Nil_conv)
        with lp have "Discover_loop ?p2 ?names ?out ?st1 = (r, st')" by simp
        moreover have "calls ?st1 = [ListClustersPagesCall (pages, None)]" using None by simp
        ultimately show ?thesis using False s \<open>se = None\<close> l None by blast
      qed
    qed
  qed
qed

lemma Discover_loop_error:
  "Discover_loop p names out st = (Returned (res, Some e), st') \<Longrightarrow>
   res = None \<and>
   (\<exists>n dres e0. DescribeClusterCall \<lparr>DescribeClusterInput.Name = Some n\<rparr> (dres, Some e0) \<in> set (calls st') \<and>
      e = Wrapped ''getting cluster config'' (Wrapped (''describing cluster '' @ n) e0))"
proof (induction names arbitrary: out st)
  case Nil
  then show ?case by simp
next
  case (Cons clusterName rest)
  from Cons.prems obtain n where cn: "clusterName = Some n" by (cases clusterName) auto
  obtain g st1 where g: "getClusterConfig p n st = (g, st1)" by (metis surj_pair)
  let ?ev = "\<lambda>res. DescribeClusterCall \<lparr>DescribeClusterInput.Name = Some n\<rparr> res"
  from getClusterConfig_call [OF g] obtain dres where
    c1: "calls st1 = calls st @ [?ev dres]"
    and g': "case snd dres of
            Some e \<Rightarrow> g = Returned (None, Some (Wrapped (''describing cluster '' @ n) e))
          | None \<Rightarrow>
              (case returnedCluster (?ev dres) of
                 Some c \<Rightarrow> g = Returned (Some c, None)
               | None \<Rightarrow> g = Panic)"
    by blast
  show ?case
  proof (cases "snd dres")
    case (Some e0)
    with g' have "g = Returned (None, Some (Wrapped (''describing cluster '' @ n) e0))" by simp
    with Cons.prems cn g have "res = None" "st' = st1"
      "e = Wrapped ''getting cluster config'' (Wrapped (''describing cluster '' @ n) e0)"
      by simp_all
    moreover from c1 Some have "?ev (fst dres, Some e0) \<in> set (calls st1)"
      by (cases dres) simp
    ultimately show ?thesis by blast
  next
    case None
    show ?thesis
    proof (cases "returnedCluster (?ev dres)")
      case None
      with g' \<open>snd dres = None\<close> have "g = Panic" by simp
      with Cons.prems cn g show ?thesis by simp
    next
      case (Some c)
      with g' \<open>snd dres = None\<close> have "g = Returned (Some c, None)" by simp
      with Cons.prems cn g
      have "Discover_loop p rest (out\<lparr>Clusters := (Clusters out)(ID c \<mapsto> c)\<rparr>) st1
              = (Returned (res, Some e), st')"
        by simp
      from Cons.IH [OF this] show ?thesis .
    qed
  qed
qed

lemma clustersReturned_length:
  "\<forall>c \<in> set new. returnedCluster c \<noteq> None \<Longrightarrow> length (clustersReturned new) = length new"
  by (induction new) (auto simp: clustersReturned_def map_filter_simps)



section \<open>Discovery: failures, results and order\<close>

text \<open>
  C1. In every run of \<^verbatim>\<open>Discover\<close> in which a describe call fails, that is, in which a
  \<^verbatim>\<open>DescribeCluster\<close> call is recorded with an error, \<^verbatim>\<open>Discover\<close> returns that error,
  wrapped with the name of the cluster, and a nil output: the clusters described before
  the failure are not returned.
\<close>

theorem Discover_describe_failure:
  assumes run: "Discover pn setupFn ctx input p w = (r, p', st')"
    and failed: "DescribeClusterCall inp (res, Some e) \<in> set (calls st')"
  shows "\<exists>n. DescribeClusterInput.Name inp = Some n \<and>
           r = Returned (None, Some (Wrapped ''getting cluster config''
                                      (Wrapped (''describing cluster '' @ n) e)))"
proof -
  from Discover_run [OF run] failed
  obtain pages st1 p2 where
    c1: "calls st1 = [ListClustersPagesCall (pages, None)]" and
    lp: "Discover_loop p2 (concat (map ListClustersOutput.Clusters pages))
              \<lparr>DiscoveryProvider = pn, IdentityProvider = ''aws'', Clusters = Map.empty\<rparr> st1
              = (r, st')"
    by auto
  from Discover_loop_calls [OF lp] c1 failed show ?thesis by auto
qed

theorem Discover_describe_failure_witness:
  "DescribeClusterCall \<lparr>DescribeClusterInput.Name = Some ''b''\<rparr> (None, Some (ErrorString ''throttled''))
     \<in> set (calls (snd (snd (Discover ''eks'' setupDone (canceledAfter 9)
                 \<lparr>ConfigSet = [], Identity = OtherIdentity ''aws''\<rparr> (stubProvider [''a'', ''b''] [''b'']) 0)))) \<and>
   fst (Discover ''eks'' setupDone (canceledAfter 9)
          \<lparr>ConfigSet = [], Identity = OtherIdentity ''aws''\<rparr> (stubProvider [''a'', ''b''] [''b'']) 0)
     = Returned (None, Some (Wrapped ''getting cluster config''
                               (Wrapped ''describing cluster b'' (ErrorString ''throttled''))))"
proof -
  let ?run = "Discover ''eks'' setupDone (canceledAfter 9)
                 \<lparr>ConfigSet = [], Identity = OtherIdentity ''aws''\<rparr> (stubProvider [''a'', ''b''] [''b'']) 0"
  have run: "?run = (fst ?run, fst (snd ?run), snd (snd ?run))" by simp
  have failed: "DescribeClusterCall \<lparr>DescribeClusterInput.Name = Some ''b''\<rparr>
                  (None, Some (ErrorString ''throttled'')) \<in> set (calls (snd (snd ?run)))"
    by (simp add: stub_defs)
  from Discover_describe_failure [OF run failed] failed show ?thesis by simp
qed

text \<open>
  C3, as the code has it. Let \<^verbatim>\<open>setup\<close> succeed, let the list call succeed with name pointers
  that are all non-nil, and let every describe call, made on the client in the world the
  call before it left, return a nil error and an output whose cluster, ARN, name and
  certificate authority are present. Then \<^verbatim>\<open>Discover\<close> makes the list call and exactly
  these describe calls, and returns no error and an output naming the provider. Its
  clusters map holds, under each returned ARN, the record of the last describe call that
  returned it, with name, endpoint and certificate data as that call returned them; its
  keys are exactly the returned ARNs. When the returned ARNs are distinct, every
  described cluster has its own entry and there are as many entries as listed names.
\<close>

theorem Discover_all_described:
  assumes ready: "setupFn (ConfigSet input) (Identity input) p = (None, p1)"
    and listed: "ListClustersPages (eksClient p1) w = ((pages, None), w1)"
    and named: "concat (map ListClustersOutput.Clusters pages) = map Some ns"
    and answers: "describeAll (eksClient p1) ns w1 = (described, w2)"
    and complete: "\<forall>c \<in> set described. returnedCluster c \<noteq> None"
  shows "\<exists>out. Discover pn setupFn ctx input p w =
             (Returned (Some out, None),
              p1\<lparr>eksClusterProvider.logger := eksClusterProvider.logger p1 @
                   (if ns = [] then [''discovering EKS clusters'', ''no EKS clusters discovered'']
                    else [''discovering EKS clusters''])\<rparr>,
              \<lparr>world = w2, calls = ListClustersPagesCall (pages, None) # described\<rparr>) \<and>
           DiscoveryProvider out = pn \<and> IdentityProvider out = ''aws'' \<and>
           Clusters out = map_of (rev (map (\<lambda>c. (ID c, c)) (clustersReturned described))) \<and>
           dom (Clusters out) = ID ` set (clustersReturned described) \<and>
           (distinct (map ID (clustersReturned described)) \<longrightarrow>
              (\<forall>c \<in> set (clustersReturned described). Clusters out (ID c) = Some c) \<and>
              card (dom (Clusters out)) = length ns)"
proof -
  let ?kv = "\<lambda>c. (ID c, c)"
  let ?cs = "clustersReturned described"
  let ?init = "\<lparr>DiscoveryProvider = pn, IdentityProvider = ''aws'', Clusters = Map.empty\<rparr>"
  let ?out = "?init\<lparr>Clusters := map_of (rev (map ?kv ?cs))\<rparr>"
  let ?p2 = "p1\<lparr>eksClusterProvider.logger := eksClusterProvider.logger p1 @ [''discovering EKS clusters'']\<rparr>"
  let ?st1 = "\<lparr>world = w1, calls = [ListClustersPagesCall (pages, None)]\<rparr>"
  have lc: "listClusters ?p2 \<lparr>world = w, calls = []\<rparr> = ((map Some ns, None), ?st1)"
    using listed named by (simp add: listClusters_def foldl_append_pages)
  have run: "Discover pn setupFn ctx input p w =
             (Returned (Some ?out, None),
              p1\<lparr>eksClusterProvider.logger := eksClusterProvider.logger p1 @
                   (if ns = [] then [''discovering EKS clusters'', ''no EKS clusters discovered'']
                    else [''discovering EKS clusters''])\<rparr>,
              \<lparr>world = w2, calls = ListClustersPagesCall (pages, None) # described\<rparr>)"
  proof (cases "ns = []")
    case True
    with answers have "described = []" "w2 = w1" by simp_all
    with True ready lc show ?thesis
      by (simp add: Discover_def Let_def clustersReturned_def map_filter_simps)
  next
    case False
    have a: "describeAll (eksClient ?p2) ns (world ?st1) = (described, w2)"
      using answers by simp
    have loop: "Discover_loop ?p2 (map Some ns) ?init ?st1 =
                  (Returned (Some (?init\<lparr>Clusters := Clusters ?init ++ map_of (rev (map ?kv ?cs))\<rparr>), None),
                   ?st1\<lparr>world := w2, calls := calls ?st1 @ described\<rparr>)"
      by (rule Discover_loop_describeAll [OF a complete])
    from ready lc loop False show ?thesis
      by (simp add: Discover_def Let_def)
  qed
  have len: "length ?cs = length ns"
    using clustersReturned_length [OF complete] describeAll_length [OF answers] by simp
  have dom: "dom (Clusters ?out) = ID ` set ?cs"
    by (simp add: dom_map_of_conv_image_fst image_image)
  have entries: "\<forall>c \<in> set ?cs. Clusters ?out (ID c) = Some c" if dist: "distinct (map ID ?cs)"
  proof
    fix c assume "c \<in> set ?cs"
    moreover from dist have "distinct (map fst (rev (map ?kv ?cs)))"
      by (simp add: rev_map [symmetric] comp_def)
    ultimately show "Clusters ?out (ID c) = Some c" by simp
  qed
  have card: "card (dom (Clusters ?out)) = length ns" if dist: "distinct (map ID ?cs)"
    using dist dom len by (metis distinct_card length_map list.set_map)
  show ?thesis using run dom entries card
    by (intro exI [of _ ?out]) simp
qed

theorem Discover_all_described_witness:
  "\<exists>out. fst (Discover ''eks'' setupDone (canceledAfter 9)
                 \<lparr>ConfigSet = [], Identity = OtherIdentity ''aws''\<rparr> (stubProvider [''a'', ''b''] []) 0)
           = Returned (Some out, None) \<and>
         dom (Clusters out) = {''arn:a'', ''arn:b''} \<and>
         Clusters out ''arn:a'' = Some (discovered ''a'') \<and>
         Clusters out ''arn:b'' = Some (discovered ''b'') \<and>
         card (dom (Clusters out)) = 2"
proof -
  let ?p = "stubProvider [''a'', ''b''] []"
  let ?input = "\<lparr>ConfigSet = [], Identity = OtherIdentity ''aws''\<rparr>"
  let ?pages = "[\<lparr>ListClustersOutput.Clusters = [Some ''a'', Some ''b'']\<rparr>]"
  let ?described =
     "[DescribeClusterCall \<lparr>DescribeClusterInput.Name = Some ''a''\<rparr> (Some (describedAs ''a''), None),
       DescribeClusterCall \<lparr>DescribeClusterInput.Name = Some ''b''\<rparr> (Some (describedAs ''b''), None)]"
  have ready: "setupDone (ConfigSet ?input) (Identity ?input) ?p = (None, ?p)"
    by (simp add: setupDone_def)
  have listed: "ListClustersPages (eksClient ?p) 0 = ((?pages, None), Suc 0)"
    by (simp add: stubProvider_def stubClient_def)
  have named: "concat (map ListClustersOutput.Clusters ?pages) = map Some [''a'', ''b'']" by simp
  have answers: "describeAll (eksClient ?p) [''a'', ''b''] (Suc 0) = (?described, Suc (Suc (Suc 0)))"
    by (simp add: stubProvider_def stubClient_def)
  have complete: "\<forall>c \<in> set ?described. returnedCluster c \<noteq> None"
    by (simp add: describedAs_def)
  have cs: "clustersReturned ?described = [discovered ''a'', discovered ''b'']"
    by (simp add: clustersReturned_def map_filter_simps describedAs_def discovered_def)
  from Discover_all_described [where setupFn = setupDone and input = ?input and p = ?p
         and pn = "''eks''" and ctx = "canceledAfter 9", OF ready listed named answers complete]
  obtain out where out: "fst (Discover ''eks'' setupDone (canceledAfter 9) ?input ?p 0)
                           = Returned (Some out, None)"
    and dom: "dom (Clusters out) = ID ` set (clustersReturned ?described)"
    and ent: "distinct (map ID (clustersReturned ?described)) \<longrightarrow>
              (\<forall>c \<in> set (clustersReturned ?described). Clusters out (ID c) = Some c) \<and>
              card (dom (Clusters out)) = length [''a'', ''b'']"
    by force
  have ids: "ID (discovered ''a'') = ''arn:a''" "ID (discovered ''b'') = ''arn:b''"
    by (simp_all add: discovered_def)
  from ent have "Clusters out ''arn:a'' = Some (discovered ''a'') \<and>
                 Clusters out ''arn:b'' = Some (discovered ''b'') \<and>
                 card (dom (Clusters out)) = 2"
    unfolding cs using ids by simp
  moreover from dom have "dom (Clusters out) = {''arn:a'', ''arn:b''}"
    unfolding cs using ids by simp
  ultimately show ?thesis using out by blast
qed

text \<open>
  The claim as stated fails in three ways. A describe call that returns a nil error and
  a cluster without certificate authority makes \<^verbatim>\<open>Discover\<close> panic. Two listed clusters
  whose describe calls return one and the same ARN leave a single entry, the second
  cluster's. A listed name pointer that is nil makes \<^verbatim>\<open>Discover\<close> panic before any
  describe call.
\<close>

theorem Discover_all_described_counterexample:
  "Discover ''eks'' setupDone (canceledAfter 9) \<lparr>ConfigSet = [], Identity = OtherIdentity ''aws''\<rparr>
      \<lparr>eksClient = scriptedClient [Some ''a'']
         (\<lambda>n. (Some \<lparr>Cluster = Some \<lparr>Arn = Some ''arn:a'', eks_Cluster.Name = Some n,
                                       Endpoint = None, CertificateAuthority = None\<rparr>\<rparr>, None)),
       eksClusterProvider.logger = []\<rparr> 0
     = (Panic,
        \<lparr>eksClient = scriptedClient [Some ''a'']
           (\<lambda>n. (Some \<lparr>Cluster = Some \<lparr>Arn = Some ''arn:a'', eks_Cluster.Name = Some n,
                                         Endpoint = None, CertificateAuthority = None\<rparr>\<rparr>, None)),
         eksClusterProvider.logger = [''discovering EKS clusters'']\<rparr>,
        \<lparr>world = Suc (Suc 0),
         calls = [ListClustersPagesCall ([\<lparr>ListClustersOutput.Clusters = [Some ''a'']\<rparr>], None),
                  DescribeClusterCall \<lparr>DescribeClusterInput.Name = Some ''a''\<rparr>
                    (Some \<lparr>Cluster = Some \<lparr>Arn = Some ''arn:a'', eks_Cluster.Name = Some ''a'',
                                             Endpoint = None, CertificateAuthority = None\<rparr>\<rparr>,
                     None)]\<rparr>) \<and>
   fst (Discover ''eks'' setupDone (canceledAfter 9) \<lparr>ConfigSet = [], Identity = OtherIdentity ''aws''\<rparr>
      \<lparr>eksClient = scriptedClient [Some ''a'', Some ''b'']
         (\<lambda>n. (Some \<lparr>Cluster = Some \<lparr>Arn = Some ''arn:x'', eks_Cluster.Name = Some n,
                                       Endpoint = None,
                                       CertificateAuthority = Some \<lparr>Data = None\<rparr>\<rparr>\<rparr>, None)),
       eksClusterProvider.logger = []\<rparr> 0)
     = Returned (Some \<lparr>DiscoveryProvider = ''eks'', IdentityProvider = ''aws'',
                       Clusters = [''arn:x'' \<mapsto> \<lparr>ID = ''arn:x'', Cluster.Name = ''b'',
                                                   ControlPlaneEndpoint = None,
                                                   CertificateAuthorityData = None\<rparr>]\<rparr>, None) \<and>
   fst (Discover ''eks'' setupDone (canceledAfter 9) \<lparr>ConfigSet = [], Identity = OtherIdentity ''aws''\<rparr>
      \<lparr>eksClient = scriptedClient [None] (\<lambda>n. (None, Some (ErrorString ''not found''))),
       eksClusterProvider.logger = []\<rparr> 0)
     = Panic"
  by (simp add: Discover_def listClusters_def getClusterConfig_def setupDone_def scriptedClient_def
        Let_def)

text \<open>
  C4. In every run in which the list call succeeds and lists no cluster, \<^verbatim>\<open>Discover\<close>
  returns no error and an output whose clusters map is empty; the list call is the only
  call made.
\<close>

theorem Discover_no_clusters:
  assumes run: "Discover pn setupFn ctx input p w = (r, p', st')"
    and listed: "ListClustersPagesCall (pages, None) \<in> set (calls st')"
    and none: "concat (map ListClustersOutput.Clusters pages) = []"
  shows "r = Returned (Some \<lparr>DiscoveryProvider = pn, IdentityProvider = ''aws'',
                              Clusters = Map.empty\<rparr>, None) \<and>
         calls st' = [ListClustersPagesCall (pages, None)]"
proof -
  from Discover_run [OF run]
  consider (refused) "calls st' = []"
    | (list) pages' e where "calls st' = [ListClustersPagesCall (pages', Some e)]"
    | (empty) pages' where "concat (map ListClustersOutput.Clusters pages') = []"
        "calls st' = [ListClustersPagesCall (pages', None)]"
        "r = Returned (Some \<lparr>DiscoveryProvider = pn, IdentityProvider = ''aws'',
                              Clusters = Map.empty\<rparr>, None)"
    | (loop) pages' st1 p2 where "concat (map ListClustersOutput.Clusters pages') \<noteq> []"
        "calls st1 = [ListClustersPagesCall (pages', None)]"
        "Discover_loop p2 (concat (map ListClustersOutput.Clusters pages'))
              \<lparr>DiscoveryProvider = pn, IdentityProvider = ''aws'', Clusters = Map.empty\<rparr> st1
              = (r, st')"
    by blast
  then show ?thesis
  proof cases
    case refused
    with listed show ?thesis by simp
  next
    case list
    with listed show ?thesis by simp
  next
    case empty
    with listed show ?thesis by simp
  next
    case loop
    from Discover_loop_calls [OF loop(3)] loop(2) obtain new where
      "calls st' = ListClustersPagesCall (pages', None) # new" "\<forall>c \<in> set new. isDescribe c"
      by auto
    with listed have "pages = pages'" by auto
    with none loop(1) show ?thesis by simp
  qed
qed

theorem Discover_no_clusters_witness:
  "ListClustersPagesCall ([\<lparr>ListClustersOutput.Clusters = []\<rparr>], None)
     \<in> set (calls (snd (snd (Discover ''eks'' setupDone (canceledAfter 9)
                 \<lparr>ConfigSet = [], Identity = OtherIdentity ''aws''\<rparr> (stubProvider [] []) 0)))) \<and>
   concat (map ListClustersOutput.Clusters [\<lparr>ListClustersOutput.Clusters = []\<rparr>]) = [] \<and>
   fst (Discover ''eks'' setupDone (canceledAfter 9)
          \<lparr>ConfigSet = [], Identity = OtherIdentity ''aws''\<rparr> (stubProvider [] []) 0)
     = Returned (Some \<lparr>DiscoveryProvider = ''eks'', IdentityProvider = ''aws'',
                       Clusters = Map.empty\<rparr>, None)"
proof -
  let ?run = "Discover ''eks'' setupDone (canceledAfter 9)
                 \<lparr>ConfigSet = [], Identity = OtherIdentity ''aws''\<rparr> (stubProvider [] []) 0"
  have run: "?run = (fst ?run, fst (snd ?run), snd (snd ?run))" by simp
  have listed: "ListClustersPagesCall ([\<lparr>ListClustersOutput.Clusters = []\<rparr>], None)
                  \<in> set (calls (snd (snd ?run)))"
    by (simp add: stub_defs)
  have none: "concat (map ListClustersOutput.Clusters [\<lparr>ListClustersOutput.Clusters = []\<rparr>]) = []"
    by simp
  from Discover_no_clusters [OF run listed none] listed show ?thesis by simp
qed

text \<open>
  C7. \<^verbatim>\<open>Discover\<close> runs \<^verbatim>\<open>setup\<close> first. When \<^verbatim>\<open>setup\<close> fails, \<^verbatim>\<open>Discover\<close> returns its
  error, wrapped, with a nil output, and no call to the collaborator has been made. In
  a run that does call the collaborator, \<^verbatim>\<open>setup\<close> has returned without error, the first
  call is the list call of the client of the provider as \<^verbatim>\<open>setup\<close> left it, and every
  later call is a describe call.
\<close>

theorem Discover_setup_first:
  "(\<forall>e p1. setupFn (ConfigSet input) (Identity input) p = (Some e, p1) \<longrightarrow>
      Discover pn setupFn ctx input p w =
        (Returned (None, Some (Wrapped ''setting up eks provider'' e)), p1,
         \<lparr>world = w, calls = []\<rparr>)) \<and>
   (\<forall>r p' st'. Discover pn setupFn ctx input p w = (r, p', st') \<and> calls st' \<noteq> [] \<longrightarrow>
      (\<exists>p1. setupFn (ConfigSet input) (Identity input) p = (None, p1) \<and>
         hd (calls st') = ListClustersPagesCall (fst (ListClustersPages (eksClient p1) w)) \<and>
         (\<forall>c \<in> set (tl (calls st')). isDescribe c)))"
proof (intro conjI allI impI)
  fix e p1
  assume "setupFn (ConfigSet input) (Identity input) p = (Some e, p1)"
  then show "Discover pn setupFn ctx input p w =
        (Returned (None, Some (Wrapped ''setting up eks provider'' e)), p1,
         \<lparr>world = w, calls = []\<rparr>)"
    by (simp add: Discover_def)
next
  fix r p' st'
  assume a: "Discover pn setupFn ctx input p w = (r, p', st') \<and> calls st' \<noteq> []"
  obtain se p1 where s: "setupFn (ConfigSet input) (Identity input) p = (se, p1)"
    by (metis surj_pair)
  from a s have se: "se = None" by (cases se) (auto simp: Discover_def)
  let ?p2 = "p1\<lparr>eksClusterProvider.logger := eksClusterProvider.logger p1 @ [''discovering EKS clusters'']\<rparr>"
  obtain pages err w1 where l: "ListClustersPages (eksClient p1) w = ((pages, err), w1)"
    by (metis surj_pair)
  have "hd (calls st') = ListClustersPagesCall (pages, err) \<and> (\<forall>c \<in> set (tl (calls st')). isDescribe c)"
  proof -
    from Discover_run [OF conjunct1 [OF a]] a s se l
    consider (single) "calls st' = [ListClustersPagesCall (pages, err)]"
      | (loop) st1 p2 where
          "calls st1 = [ListClustersPagesCall (pages, err)]"
          "Discover_loop p2 (concat (map ListClustersOutput.Clusters pages))
             \<lparr>DiscoveryProvider = pn, IdentityProvider = ''aws'', Clusters = Map.empty\<rparr> st1 = (r, st')"
      by auto
    then show ?thesis
    proof cases
      case single
      then show ?thesis by simp
    next
      case loop
      from Discover_loop_calls [OF loop(2)] loop(1) show ?thesis by auto
    qed
  qed
  with s se l
  show "\<exists>p1. setupFn (ConfigSet input) (Identity input) p = (None, p1) \<and>
         hd (calls st') = ListClustersPagesCall (fst (ListClustersPages (eksClient p1) w)) \<and>
         (\<forall>c \<in> set (tl (calls st')). isDescribe c)"
    by simp
qed

theorem Discover_setup_first_witness:
  "Discover ''eks'' setupByDispatch (canceledAfter 9)
      \<lparr>ConfigSet = [], Identity = OtherIdentity ''saml''\<rparr> (stubProvider [''a''] []) 0
     = (Returned (None, Some (Wrapped ''setting up eks provider''
                                (ErrorString ''unsupported identity''))),
        stubProvider [''a''] [], \<lparr>world = 0, calls = []\<rparr>) \<and>
   hd (calls (snd (snd (Discover ''eks'' setupByDispatch (canceledAfter 9)
      \<lparr>ConfigSet = [], Identity = OIDCIdentity (oidc_Identity ''token'')\<rparr> (stubProvider [''a''] []) 0))))
     = ListClustersPagesCall ([\<lparr>ListClustersOutput.Clusters = [Some ''a'']\<rparr>], None)"
proof -
  let ?p = "stubProvider [''a''] []"
  let ?bad = "\<lparr>ConfigSet = [], Identity = OtherIdentity ''saml''\<rparr>"
  let ?good = "\<lparr>ConfigSet = [], Identity = OIDCIdentity (oidc_Identity ''token'')\<rparr>"
  let ?run = "Discover ''eks'' setupByDispatch (canceledAfter 9) ?good ?p 0"
  have refused: "setupByDispatch (ConfigSet ?bad) (Identity ?bad) ?p
                   = (Some (ErrorString ''unsupported identity''), ?p)"
    by (simp add: setupByDispatch_def aksClusterProvider_setup_def)
  have accepted: "setupByDispatch (ConfigSet ?good) (Identity ?good) ?p = (None, ?p)"
    by (simp add: setupByDispatch_def aksClusterProvider_setup_def)
  have run: "?run = (fst ?run, fst (snd ?run), snd (snd ?run)) \<and> calls (snd (snd ?run)) \<noteq> []"
    by (simp add: stub_defs setupByDispatch_def aksClusterProvider_setup_def)
  from Discover_setup_first [of setupByDispatch ?bad ?p "''eks''" "canceledAfter 9" 0] refused
  have first: "Discover ''eks'' setupByDispatch (canceledAfter 9) ?bad ?p 0
     = (Returned (None, Some (Wrapped ''setting up eks provider''
                                (ErrorString ''unsupported identity''))),
        ?p, \<lparr>world = 0, calls = []\<rparr>)"
    by blast
  from Discover_setup_first [of setupByDispatch ?good ?p "''eks''" "canceledAfter 9" 0] run
  obtain p1 where p1: "setupByDispatch (ConfigSet ?good) (Identity ?good) ?p = (None, p1)"
    and hd: "hd (calls (snd (snd ?run))) = ListClustersPagesCall (fst (ListClustersPages (eksClient p1) 0))"
    by blast
  from p1 accepted have "p1 = ?p" by simp
  with hd have "hd (calls (snd (snd ?run)))
     = ListClustersPagesCall (fst (ListClustersPages (eksClient ?p) 0))"
    by simp
  also have "fst (ListClustersPages (eksClient ?p) 0)
     = ([\<lparr>ListClustersOutput.Clusters = [Some ''a'']\<rparr>], None)"
    by (simp add: stubProvider_def stubClient_def)
  finally show ?thesis using first by simp
qed


text \<open>
  C5, as the code has it. \<^verbatim>\<open>Discover\<close> never reads its context: with any two contexts it
  makes the same calls and returns the same result. It returns an error only when
  \<^verbatim>\<open>setup\<close>, the list call or a describe call returned one, and then it returns that
  error, wrapped, with a nil output.
\<close>

theorem Discover_ignores_context:
  "Discover pn setupFn ctx input p w = Discover pn setupFn ctx' input p w \<and>
   (\<forall>res e p' st'. Discover pn setupFn ctx input p w = (Returned (res, Some e), p', st') \<longrightarrow>
      res = None \<and>
      ((\<exists>e0 p1. setupFn (ConfigSet input) (Identity input) p = (Some e0, p1) \<and>
           e = Wrapped ''setting up eks provider'' e0) \<or>
       (\<exists>pages e0. ListClustersPagesCall (pages, Some e0) \<in> set (calls st') \<and>
           e = Wrapped ''listing clusters'' (Wrapped ''listing clusters'' e0)) \<or>
       (\<exists>n dres e0. DescribeClusterCall \<lparr>DescribeClusterInput.Name = Some n\<rparr> (dres, Some e0)
                        \<in> set (calls st') \<and>
           e = Wrapped ''getting cluster config'' (Wrapped (''describing cluster '' @ n) e0))))"
proof (rule conjI)
  show "Discover pn setupFn ctx input p w = Discover pn setupFn ctx' input p w"
    by (simp add: Discover_def)
next
  show "\<forall>res e p' st'. Discover pn setupFn ctx input p w = (Returned (res, Some e), p', st') \<longrightarrow>
      res = None \<and>
      ((\<exists>e0 p1. setupFn (ConfigSet input) (Identity input) p = (Some e0, p1) \<and>
           e = Wrapped ''setting up eks provider'' e0) \<or>
       (\<exists>pages e0. ListClustersPagesCall (pages, Some e0) \<in> set (calls st') \<and>
           e = Wrapped ''listing clusters'' (Wrapped ''listing clusters'' e0)) \<or>
       (\<exists>n dres e0. DescribeClusterCall \<lparr>DescribeClusterInput.Name = Some n\<rparr> (dres, Some e0)
                        \<in> set (calls st') \<and>
           e = Wrapped ''getting cluster config'' (Wrapped (''describing cluster '' @ n) e0)))"
  proof (intro allI impI)
    fix res e p' st'
    assume run: "Discover pn setupFn ctx input p w = (Returned (res, Some e), p', st')"
    let ?goal = "res = None \<and>
        ((\<exists>e0 p1. setupFn (ConfigSet input) (Identity input) p = (Some e0, p1) \<and>
             e = Wrapped ''setting up eks provider'' e0) \<or>
         (\<exists>pages e0. ListClustersPagesCall (pages, Some e0) \<in> set (calls st') \<and>
             e = Wrapped ''listing clusters'' (Wrapped ''listing clusters'' e0)) \<or>
         (\<exists>n dres e0. DescribeClusterCall \<lparr>DescribeClusterInput.Name = Some n\<rparr> (dres, Some e0)
                          \<in> set (calls st') \<and>
             e = Wrapped ''getting cluster config'' (Wrapped (''describing cluster '' @ n) e0)))"
    from Discover_run [OF run] show ?goal
    proof (elim disjE exE conjE)
      fix e0 p1
      assume "setupFn (ConfigSet input) (Identity input) p = (Some e0, p1)"
        and "Returned (res, Some e) = Returned (None, Some (Wrapped ''setting up eks provider'' e0))"
      then show ?goal by simp
    next
      fix p1 w1 pages e0
      assume "calls st' = [ListClustersPagesCall (pages, Some e0)]"
        and "Returned (res, Some e) = Returned (None, Some (Wrapped ''listing clusters''
                                         (Wrapped ''listing clusters'' e0)))"
      then show ?goal by simp
    next
      fix p1 :: "'a eksClusterProvider" and w1 :: 'a and pages :: "ListClustersOutput list"
      assume "Returned (res, Some e) = Returned (Some \<lparr>DiscoveryProvider = pn, IdentityProvider = ''aws'',
                                   Clusters = Map.empty\<rparr>, None)"
      then show ?goal by simp
    next
      fix p1 w1 pages st1 p2
      assume "Discover_loop p2 (concat (map ListClustersOutput.Clusters pages))
                \<lparr>DiscoveryProvider = pn, IdentityProvider = ''aws'', Clusters = Map.empty\<rparr> st1
                = (Returned (res, Some e), st')"
      from Discover_loop_error [OF this] show ?goal by blast
    qed
  qed
qed

theorem Discover_ignores_context_witness:
  "Discover ''eks'' setupDone (canceledAfter 1)
      \<lparr>ConfigSet = [], Identity = OtherIdentity ''aws''\<rparr> (stubProvider [''a'', ''b''] [''b'']) 0
     = Discover ''eks'' setupDone (canceledAfter 9)
      \<lparr>ConfigSet = [], Identity = OtherIdentity ''aws''\<rparr> (stubProvider [''a'', ''b''] [''b'']) 0 \<and>
   fst (Discover ''eks'' setupDone (canceledAfter 1)
      \<lparr>ConfigSet = [], Identity = OtherIdentity ''aws''\<rparr> (stubProvider [''a'', ''b''] [''b'']) 0)
     = Returned (None, Some (Wrapped ''getting cluster config''
                               (Wrapped ''describing cluster b'' (ErrorString ''throttled''))))"
proof -
  let ?run = "Discover ''eks'' setupDone (canceledAfter 1)
      \<lparr>ConfigSet = [], Identity = OtherIdentity ''aws''\<rparr> (stubProvider [''a'', ''b''] [''b'']) 0"
  let ?e = "Wrapped ''getting cluster config''
              (Wrapped ''describing cluster b'' (ErrorString ''throttled''))"
  have run: "?run = (Returned (None, Some ?e), fst (snd ?run), snd (snd ?run))"
    by (simp add: stub_defs)
  from Discover_ignores_context [of "''eks''" setupDone "canceledAfter 1"
         "\<lparr>ConfigSet = [], Identity = OtherIdentity ''aws''\<rparr>" "stubProvider [''a'', ''b''] [''b'']" 0
         "canceledAfter 9"] run
  show ?thesis by (metis fst_conv)
qed

text \<open>
  The claim as stated fails. The context below is canceled once the list call has
  returned (the world counts the calls made). Both describe calls are made all the same,
  and \<^verbatim>\<open>Discover\<close> returns both clusters and no error.
\<close>

theorem Discover_cancellation_counterexample:
  "canceledAfter 1 1 = Some (ErrorString ''context canceled'') \<and>
   Discover ''eks'' setupDone (canceledAfter 1)
      \<lparr>ConfigSet = [], Identity = OtherIdentity ''aws''\<rparr> (stubProvider [''a'', ''b''] []) 0
     = (Returned (Some \<lparr>DiscoveryProvider = ''eks'', IdentityProvider = ''aws'',
                        Clusters = [''arn:a'' \<mapsto> discovered ''a'', ''arn:b'' \<mapsto> discovered ''b'']\<rparr>,
                  None),
        \<lparr>eksClient = stubClient [''a'', ''b''] [],
         eksClusterProvider.logger = [''discovering EKS clusters'']\<rparr>,
        \<lparr>world = 3,
         calls = [ListClustersPagesCall ([\<lparr>ListClustersOutput.Clusters = [Some ''a'', Some ''b'']\<rparr>], None),
                  DescribeClusterCall \<lparr>DescribeClusterInput.Name = Some ''a''\<rparr>
                    (Some (describedAs ''a''), None),
                  DescribeClusterCall \<lparr>DescribeClusterInput.Name = Some ''b''\<rparr>
                    (Some (describedAs ''b''), None)]\<rparr>)"
  by (simp add: stub_defs canceledAfter_def discovered_def numeral_3_eq_3)


section \<open>The AKS provider: construction and configuration items\<close>

text \<open>
  C9. \<^verbatim>\<open>New\<close> fails with the missing-client error and returns no provider when the input
  carries no HTTP client; with a client present it returns, without error, a provider
  holding the input's client, logger and interactivity flag and nothing bound yet.
\<close>

theorem New_requires_http_client:
  "(HTTPClient input = None \<longrightarrow> New E input = (None, Some E)) \<and>
   (HTTPClient input \<noteq> None \<longrightarrow>
      New E input = (Some \<lparr>config = None, authorizer = None, httpClient = HTTPClient input,
                            interactive = IsInteractice input, aksClusterProvider.logger = Logger input\<rparr>, None))"
  by (simp add: New_def)

theorem New_requires_http_client_witness:
  "New (ErrorString ''http client required'')
       \<lparr>Logger = [], IsInteractice = True, HTTPClient = None\<rparr>
     = (None :: unit aksClusterProvider option, Some (ErrorString ''http client required'')) \<and>
   New (ErrorString ''http client required'')
       \<lparr>Logger = [], IsInteractice = True, HTTPClient = Some ''client''\<rparr>
     = (Some \<lparr>config = None :: unit aksClusterProviderConfig option, authorizer = None,
              httpClient = Some ''client'', interactive = True, aksClusterProvider.logger = []\<rparr>, None)"
  using New_requires_http_client [of "\<lparr>Logger = [], IsInteractice = True, HTTPClient = None\<rparr>"
          "ErrorString ''http client required''"]
        New_requires_http_client [of "\<lparr>Logger = [], IsInteractice = True, HTTPClient = Some ''client''\<rparr>"
          "ErrorString ''http client required''"]
  by simp

text \<open>
  C8. For every scope, \<^verbatim>\<open>ConfigurationItems\<close> returns without error the set of exactly
  these five items, in this order: three strings defaulting to the empty string, a
  boolean defaulting to false and one more such string; only \<^verbatim>\<open>resource-group\<close> has a
  short alias, \<^verbatim>\<open>r\<close>.
\<close>

theorem ConfigurationItems_aks:
  "ConfigurationItems scopeTo =
     (Some [(''subscription-id'',
              \<lparr>kind = ItemString, defaultValue = Some (StringValue []),
               description = ''The Azure subscription to use (specified by ID)'',
               shortAlias = None\<rparr>),
            (''subscription-name'',
              \<lparr>kind = ItemString, defaultValue = Some (StringValue []),
               description = ''The Azure subscription to use (specified by name)'',
               shortAlias = None\<rparr>),
            (''resource-group'',
              \<lparr>kind = ItemString, defaultValue = Some (StringValue []),
               description = ''The Azure resource group to use'',
               shortAlias = Some ''r''\<rparr>),
            (''admin'',
              \<lparr>kind = ItemBool, defaultValue = Some (BoolValue False),
               description = ''Generate admin user kubeconfig'',
               shortAlias = None\<rparr>),
            (''cluster-name'',
              \<lparr>kind = ItemString, defaultValue = Some (StringValue []),
               description = ''The name of the AKS cluster'',
               shortAlias = None\<rparr>)], None)"
  by (simp add: ConfigurationItems_def NewConfigurationSet_def String_item_def Bool_item_def
        SetShort_def addItem_def SubscriptionIDConfigItem_def SubscriptionNameConfigItem_def
        ResourceGroupConfigItem_def AdminConfigItem_def ClusterNameConfigItem_def)


section \<open>The AKS provider: binding and identity dispatch\<close>

text \<open>
  C2. Once the configuration has been bound, \<^verbatim>\<open>setup\<close> dispatches on the identity: an
  OIDC identity gives the provider a bearer authorizer around that identity; an
  authorizer identity gives it the authorizer the identity carries, as it is; any other
  identity makes \<^verbatim>\<open>setup\<close> fail with \<^verbatim>\<open>ErrUnsupportedIdentity\<close>.
\<close>

theorem setup_identity_dispatch:
  assumes bound: "Unmarshall cs (zero_aksClusterProviderConfig z) = (None, cfg)"
  shows "aksClusterProvider_setup Unmarshall E z cs (OIDCIdentity ident) p =
           (None, p\<lparr>config := Some cfg,
                     aksClusterProvider.logger := aksClusterProvider.logger p @ [''creating bearer authorizer''],
                     authorizer := Some (BearerAuthorizer ident)\<rparr>) \<and>
         aksClusterProvider_setup Unmarshall E z cs (AzureAuthorizerIdentity aident) p =
           (None, p\<lparr>config := Some cfg, authorizer := Authorizer aident\<rparr>) \<and>
         (\<forall>userID. \<not> supportedIdentity userID \<longrightarrow>
            aksClusterProvider_setup Unmarshall E z cs userID p = (Some E, p\<lparr>config := Some cfg\<rparr>))"
proof (intro conjI allI impI)
  fix userID assume "\<not> supportedIdentity userID"
  then show "aksClusterProvider_setup Unmarshall E z cs userID p = (Some E, p\<lparr>config := Some cfg\<rparr>)"
    using bound by (cases userID) (simp_all add: aksClusterProvider_setup_def)
qed (simp_all add: aksClusterProvider_setup_def bound)

theorem setup_identity_dispatch_witness:
  "aksClusterProvider_setup bindDefaults (ErrorString ''unsupported identity'') () []
      (OIDCIdentity (oidc_Identity ''token'')) freshProvider =
     (None, \<lparr>config = Some ((zero_aksClusterProviderConfig ())\<lparr>ClusterName := ''dev''\<rparr>),
             authorizer = Some (BearerAuthorizer (oidc_Identity ''token'')),
             httpClient = Some ''client'', interactive = False,
             aksClusterProvider.logger = [''creating bearer authorizer'']\<rparr>) \<and>
   aksClusterProvider_setup bindDefaults (ErrorString ''unsupported identity'') () []
      (AzureAuthorizerIdentity (azid_AuthorizerIdentity (Some (OpaqueAuthorizer ''msi'')))) freshProvider =
     (None, \<lparr>config = Some ((zero_aksClusterProviderConfig ())\<lparr>ClusterName := ''dev''\<rparr>),
             authorizer = Some (OpaqueAuthorizer ''msi''),
             httpClient = Some ''client'', interactive = False,
             aksClusterProvider.logger = []\<rparr>) \<and>
   fst (aksClusterProvider_setup bindDefaults (ErrorString ''unsupported identity'') () []
      (OtherIdentity ''saml'') freshProvider) = Some (ErrorString ''unsupported identity'')"
proof -
  have bound: "bindDefaults [] (zero_aksClusterProviderConfig ())
                 = (None, (zero_aksClusterProviderConfig ())\<lparr>ClusterName := ''dev''\<rparr>)"
    by (simp add: bindDefaults_def)
  have other: "\<not> supportedIdentity (OtherIdentity ''saml'')" by simp
  from setup_identity_dispatch [where Unmarshall = bindDefaults and cs = "[]" and z = "()"
         and E = "ErrorString ''unsupported identity''" and ident = "oidc_Identity ''token''"
         and p = freshProvider
         and aident = "azid_AuthorizerIdentity (Some (OpaqueAuthorizer ''msi''))", OF bound] other
  show ?thesis by (simp add: freshProvider_def)
qed

text \<open>
  C10. When the configuration binds and the identity is not a supported one, \<^verbatim>\<open>setup\<close>
  returns an error, yet the provider's configuration is already the newly bound one;
  the authorizer and the other fields are as they were.
\<close>

theorem setup_not_atomic:
  assumes bound: "Unmarshall cs (zero_aksClusterProviderConfig z) = (None, cfg)"
    and unsupported: "\<not> supportedIdentity userID"
  shows "\<exists>p'. aksClusterProvider_setup Unmarshall E z cs userID p = (Some E, p') \<and>
           config p' = Some cfg \<and>
           authorizer p' = authorizer p \<and>
           httpClient p' = httpClient p \<and> interactive p' = interactive p \<and>
           aksClusterProvider.logger p' = aksClusterProvider.logger p"
  using assms by (cases userID) (simp_all add: aksClusterProvider_setup_def)

theorem setup_not_atomic_witness:
  "aksClusterProvider_setup bindDefaults (ErrorString ''unsupported identity'') () []
      NilIdentity boundProvider =
     (Some (ErrorString ''unsupported identity''),
      boundProvider\<lparr>config := Some ((zero_aksClusterProviderConfig ())\<lparr>ClusterName := ''dev''\<rparr>)\<rparr>) \<and>
   config boundProvider \<noteq> Some ((zero_aksClusterProviderConfig ())\<lparr>ClusterName := ''dev''\<rparr>) \<and>
   authorizer boundProvider = Some (OpaqueAuthorizer ''msi'')"
proof -
  have bound: "bindDefaults [] (zero_aksClusterProviderConfig ())
                 = (None, (zero_aksClusterProviderConfig ())\<lparr>ClusterName := ''dev''\<rparr>)"
    by (simp add: bindDefaults_def)
  have unsupported: "\<not> supportedIdentity NilIdentity" by simp
  from setup_not_atomic [where Unmarshall = bindDefaults and cs = "[]" and z = "()"
         and E = "ErrorString ''unsupported identity''" and p = boundProvider, OF bound unsupported]
  obtain p' where r: "aksClusterProvider_setup bindDefaults (ErrorString ''unsupported identity'') () []
      NilIdentity boundProvider = (Some (ErrorString ''unsupported identity''), p')"
    and "config p' = Some ((zero_aksClusterProviderConfig ())\<lparr>ClusterName := ''dev''\<rparr>)"
    and "authorizer p' = authorizer boundProvider"
    and "httpClient p' = httpClient boundProvider" and "interactive p' = interactive boundProvider"
    and "aksClusterProvider.logger p' = aksClusterProvider.logger boundProvider"
    by blast
  then have "p' = boundProvider\<lparr>config := Some ((zero_aksClusterProviderConfig ())\<lparr>ClusterName := ''dev''\<rparr>)\<rparr>"
    by (cases p') (simp add: boundProvider_def)
  with r show ?thesis by (simp add: boundProvider_def zero_aksClusterProviderConfig_def)
qed

text \<open>
  C6, as the code has it. For every identity that is not a supported one the dispatch
  returns \<^verbatim>\<open>ErrUnsupportedIdentity\<close> itself: one fixed value of the package, the same
  whatever the identity is.
\<close>

theorem unsupported_identity_error_fixed:
  assumes bound: "Unmarshall cs (zero_aksClusterProviderConfig z) = (None, cfg)"
    and u1: "\<not> supportedIdentity userID" and u2: "\<not> supportedIdentity userID'"
  shows "fst (aksClusterProvider_setup Unmarshall E z cs userID p) = Some E \<and>
         fst (aksClusterProvider_setup Unmarshall E z cs userID' p) = Some E"
  using assms by (cases userID; cases userID') (simp_all add: aksClusterProvider_setup_def)

theorem unsupported_identity_error_fixed_witness:
  "fst (aksClusterProvider_setup bindDefaults (ErrorString ''unsupported identity'') () []
          (OtherIdentity ''saml'') freshProvider) = Some (ErrorString ''unsupported identity'') \<and>
   fst (aksClusterProvider_setup bindDefaults (ErrorString ''unsupported identity'') () []
          (OtherIdentity ''static-token'') freshProvider) = Some (ErrorString ''unsupported identity'')"
proof -
  have bound: "bindDefaults [] (zero_aksClusterProviderConfig ())
                 = (None, (zero_aksClusterProviderConfig ())\<lparr>ClusterName := ''dev''\<rparr>)"
    by (simp add: bindDefaults_def)
  have u1: "\<not> supportedIdentity (OtherIdentity ''saml'')" by simp
  have u2: "\<not> supportedIdentity (OtherIdentity ''static-token'')" by simp
  from unsupported_identity_error_fixed [where Unmarshall = bindDefaults and cs = "[]"
         and z = "()", OF bound u1 u2]
  show ?thesis .
qed

text \<open>
  The claim as stated fails. A fixed text cannot name every identity provider: it does
  not contain the text that is one character longer than itself. So with the sentinel
  reading \<^verbatim>\<open>unsupported identity\<close> the error returned for an identity of provider
  \<^verbatim>\<open>saml\<close> does not name that provider, and whatever the sentinel is, some identity
  gets an error that does not name its provider.
\<close>

lemma no_text_names_everything: "\<not> sublist (t @ ''!'') t"
proof
  assume "sublist (t @ ''!'') t"
  then have "length (t @ ''!'') \<le> length t" by (rule sublist_length_le)
  then show False by simp
qed

theorem unsupported_identity_error_counterexample:
  "\<not> error_names (the (fst (aksClusterProvider_setup bindDefaults (ErrorString ''unsupported identity'')
                             () [] (OtherIdentity ''saml'') freshProvider))) ''saml'' \<and>
   \<not> (\<exists>E. \<forall>idp. error_names (the (fst (aksClusterProvider_setup bindDefaults E () []
                                         (OtherIdentity idp) freshProvider))) idp)"
proof
  have "\<not> sublist ''saml'' ''unsupported identity''"
    by (simp add: sublist_Cons_right prefix_Cons)
  then show "\<not> error_names (the (fst (aksClusterProvider_setup bindDefaults (ErrorString ''unsupported identity'')
                             () [] (OtherIdentity ''saml'') freshProvider))) ''saml''"
    by (simp add: aksClusterProvider_setup_def bindDefaults_def error_names_def)
next
  show "\<not> (\<exists>E. \<forall>idp. error_names (the (fst (aksClusterProvider_setup bindDefaults E () []
                                         (OtherIdentity idp) freshProvider))) idp)"
  proof
    assume "\<exists>E. \<forall>idp. error_names (the (fst (aksClusterProvider_setup bindDefaults E () []
                                         (OtherIdentity idp) freshProvider))) idp"
    then obtain E where "\<forall>idp. error_names (the (fst (aksClusterProvider_setup bindDefaults E () []
                                         (OtherIdentity idp) freshProvider))) idp"
      by blast
    then have "\<forall>idp. sublist idp (error_text E)"
      by (simp add: aksClusterProvider_setup_def bindDefaults_def error_names_def)
    then have "sublist (error_text E @ ''!'') (error_text E)" by blast
    with no_text_names_everything show False by blast
  qed
qed

end
